theory Spec2Isabelle
  imports Complex_Main
begin

section \<open>JavaScript numbers\<close>

text \<open>
  Every number of \<^verbatim>\<open>sketch.js\<close> is an IEEE double. The model keeps the four kinds of
  value that decide the control flow of the program (a finite number, the two infinities and
  NaN) and computes on finite numbers with exact real arithmetic: rounding error and overflow
  of doubles are not modelled, and neither is the sign of zero. The only divisor of the program
  that can be zero without a guard in front of it is the difference \<^verbatim>\<open>RT.x - LT.x\<close> of
  two finite numbers, which is \<^verbatim>\<open>+0\<close> when it vanishes, so \<open>jdiv\<close> divides by a positive
  zero.
\<close>

datatype jsnum = Num real | PInf | NInf | NaN

text \<open>Unary minus.\<close>

fun jneg :: "jsnum \<Rightarrow> jsnum" where
  "jneg (Num r) = Num (- r)"
| "jneg PInf = NInf"
| "jneg NInf = PInf"
| "jneg NaN = NaN"

text \<open>\<^verbatim>\<open>a + b\<close>: infinities of opposite sign add up to NaN.\<close>

fun jadd :: "jsnum \<Rightarrow> jsnum \<Rightarrow> jsnum" where
  "jadd NaN _ = NaN"
| "jadd _ NaN = NaN"
| "jadd (Num a) (Num b) = Num (a + b)"
| "jadd PInf NInf = NaN"
| "jadd NInf PInf = NaN"
| "jadd PInf _ = PInf"
| "jadd NInf _ = NInf"
| "jadd (Num a) PInf = PInf"
| "jadd (Num a) NInf = NInf"

text \<open>\<^verbatim>\<open>a - b\<close>.\<close>

definition jsub :: "jsnum \<Rightarrow> jsnum \<Rightarrow> jsnum" where
  "jsub a c = jadd a (jneg c)"

text \<open>The sign of a number that is not NaN: \<open>1\<close>, \<open>0\<close> or \<open>-1\<close>.\<close>

fun jsgn :: "jsnum \<Rightarrow> int" where
  "jsgn (Num r) = (if r > 0 then 1 else if r < 0 then - 1 else 0)"
| "jsgn PInf = 1"
| "jsgn NInf = - 1"
| "jsgn NaN = 0"

text \<open>The infinity of a given non-zero sign; sign zero stands for NaN.\<close>

definition inf_of_sign :: "int \<Rightarrow> jsnum" where
  "inf_of_sign k = (if k > 0 then PInf else if k < 0 then NInf else NaN)"

text \<open>\<^verbatim>\<open>a * b\<close>: an infinity times zero is NaN.\<close>

fun jmul :: "jsnum \<Rightarrow> jsnum \<Rightarrow> jsnum" where
  "jmul NaN _ = NaN"
| "jmul _ NaN = NaN"
| "jmul (Num a) (Num b) = Num (a * b)"
| "jmul a c = inf_of_sign (jsgn a * jsgn c)"

text \<open>
  \<^verbatim>\<open>a / b\<close>: a finite non-zero number over zero is the infinity of its sign, zero over zero
  and infinity over infinity are NaN, a finite number over an infinity is zero.
\<close>

fun jdiv :: "jsnum \<Rightarrow> jsnum \<Rightarrow> jsnum" where
  "jdiv NaN _ = NaN"
| "jdiv _ NaN = NaN"
| "jdiv (Num a) (Num c) = (if c = 0 then inf_of_sign (jsgn (Num a)) else Num (a / c))"
| "jdiv (Num a) _ = Num 0"
| "jdiv a (Num c) = inf_of_sign (jsgn a * (if c < 0 then - 1 else 1))"
| "jdiv _ _ = NaN"

text \<open>\<^verbatim>\<open>Math.abs\<close>.\<close>

fun jabs :: "jsnum \<Rightarrow> jsnum" where
  "jabs (Num r) = Num \<bar>r\<bar>"
| "jabs PInf = PInf"
| "jabs NInf = PInf"
| "jabs NaN = NaN"

text \<open>\<^verbatim>\<open>a > b\<close>: false as soon as one side is NaN.\<close>

fun jgt :: "jsnum \<Rightarrow> jsnum \<Rightarrow> bool" where
  "jgt NaN _ = False"
| "jgt _ NaN = False"
| "jgt (Num a) (Num c) = (a > c)"
| "jgt PInf PInf = False"
| "jgt PInf _ = True"
| "jgt _ PInf = False"
| "jgt NInf _ = False"
| "jgt (Num a) NInf = True"

text \<open>Truthiness of a number: \<^verbatim>\<open>0\<close> and \<^verbatim>\<open>NaN\<close> are falsy.\<close>

fun truthy :: "jsnum \<Rightarrow> bool" where
  "truthy (Num r) = (r \<noteq> 0)"
| "truthy NaN = False"
| "truthy _ = True"

text \<open>The global \<^verbatim>\<open>isFinite\<close>.\<close>

fun isFinite :: "jsnum \<Rightarrow> bool" where
  "isFinite (Num r) = True"
| "isFinite _ = False"

text \<open>\<^verbatim>\<open>Math.round\<close>: the nearest integer, a half rounding up.\<close>

fun jround :: "jsnum \<Rightarrow> jsnum" where
  "jround (Num r) = Num (of_int \<lfloor>r + 1 / 2\<rfloor>)"
| "jround a = a"

section \<open>Data of the session\<close>

text \<open>\<^verbatim>\<open>const NET_HEIGHT_M = 2.43\<close>.\<close>

definition NET_HEIGHT_M :: jsnum where
  "NET_HEIGHT_M = Num (243 / 100)"

text \<open>
  A click \<^verbatim>\<open>{ x: mouseX, y: mouseY }\<close>. The mouse position is always a finite number, so
  the coordinates are reals. A point of a rep carries the video time \<^verbatim>\<open>t\<close> as well.
\<close>

record point =
  xc :: real
  yc :: real

record rep_point = point +
  tc :: real

text \<open>\<^verbatim>\<open>topLine = { m, b }\<close>, the tape line \<^verbatim>\<open>y = m*x + b\<close>.\<close>

record top_line =
  line_m :: jsnum
  line_b :: jsnum

text \<open>
  The two globals that hold the derived geometry; \<open>None\<close> is \<^verbatim>\<open>null\<close>. The session
  record below extends this one, so the geometry functions read them from either.
\<close>

record geometry =
  pixelsPerMeter :: "jsnum option"
  topLine :: "top_line option"

section \<open>Calibration math\<close>

text \<open>The constants \<^verbatim>\<open>hLeft\<close>, \<^verbatim>\<open>hRight\<close> and \<^verbatim>\<open>hAvgPx\<close> of \<^verbatim>\<open>finalizeCalibration\<close>.\<close>

definition hLeft :: "point \<Rightarrow> point \<Rightarrow> jsnum" where
  "hLeft lb lt = jabs (jsub (Num (yc lt)) (Num (yc lb)))"

definition hRight :: "point \<Rightarrow> point \<Rightarrow> jsnum" where
  "hRight rb rt = jabs (jsub (Num (yc rt)) (Num (yc rb)))"

definition hAvgPx :: "point \<Rightarrow> point \<Rightarrow> point \<Rightarrow> point \<Rightarrow> jsnum" where
  "hAvgPx lb lt rb rt = jdiv (jadd (hLeft lb lt) (hRight rb rt)) (Num 2)"

text \<open>
  The values that \<^verbatim>\<open>finalizeCalibration\<close> gives \<^verbatim>\<open>pixelsPerMeter\<close>, \<^verbatim>\<open>m\<close> and
  \<^verbatim>\<open>b\<close>, from the four clicks.
\<close>

definition calib_scale :: "point \<Rightarrow> point \<Rightarrow> point \<Rightarrow> point \<Rightarrow> jsnum" where
  "calib_scale lb lt rb rt = jdiv (hAvgPx lb lt rb rt) NET_HEIGHT_M"

definition calib_m :: "point \<Rightarrow> point \<Rightarrow> jsnum" where
  "calib_m lt rt = jdiv (jsub (Num (yc rt)) (Num (yc lt))) (jsub (Num (xc rt)) (Num (xc lt)))"

definition calib_b :: "point \<Rightarrow> point \<Rightarrow> jsnum" where
  "calib_b lt rt = jsub (Num (yc lt)) (jmul (calib_m lt rt) (Num (xc lt)))"

text \<open>
  \<^verbatim>\<open>metersAboveNetAtPoint(x, y)\<close>. The guard \<^verbatim>\<open>!pixelsPerMeter || !topLine\<close> holds when
  the scale is \<^verbatim>\<open>null\<close>, zero or NaN, or the line is \<^verbatim>\<open>null\<close>.
\<close>

definition metersAboveNetAtPoint :: "'a geometry_scheme \<Rightarrow> real \<Rightarrow> real \<Rightarrow> jsnum option" where
  "metersAboveNetAtPoint g x y =
     (case pixelsPerMeter g of
        None \<Rightarrow> None
      | Some ppm \<Rightarrow>
          if \<not> truthy ppm then None
          else (case topLine g of
                  None \<Rightarrow> None
                | Some tline \<Rightarrow>
                    let yTop = jadd (jmul (line_m tline) (Num x)) (line_b tline);
                        dyPx = jsub yTop (Num y)
                    in Some (jdiv dyPx ppm)))"

text \<open>\<^verbatim>\<open>metersHorizDistance(p1, p2)\<close>.\<close>

definition metersHorizDistance ::
  "'a geometry_scheme \<Rightarrow> 'b point_scheme \<Rightarrow> 'c point_scheme \<Rightarrow> jsnum option" where
  "metersHorizDistance g p1 p2 =
     (case pixelsPerMeter g of
        None \<Rightarrow> None
      | Some ppm \<Rightarrow>
          if \<not> truthy ppm then None
          else let dxPx = jabs (jsub (Num (xc p2)) (Num (xc p1)))
               in Some (jdiv dxPx ppm))"

section \<open>Reps and the session\<close>

text \<open>
  The arrow that \<^verbatim>\<open>computeAllRepMetrics\<close> stores in \<^verbatim>\<open>rep.direction\<close>: a right arrow,
  a left arrow or a bullet.
\<close>

datatype direction = ArrowRight | ArrowLeft | Bullet

text \<open>
  A rep \<^verbatim>\<open>{ points, color }\<close>, with the four fields that \<^verbatim>\<open>computeAllRepMetrics\<close>
  adds. A field that is \<^verbatim>\<open>null\<close>, or not yet there, is \<open>None\<close>: every test of the source
  (\<^verbatim>\<open>!= null\<close>, \<^verbatim>\<open>||\<close>) treats the two alike.
\<close>

record rep =
  points :: "rep_point list"
  color :: "nat list"
  peakM :: "jsnum option"
  aboveNetCM :: "jsnum option"
  widthM :: "jsnum option"
  direction :: "direction option"

text \<open>The object literal \<^verbatim>\<open>{ points: [], color: c }\<close>.\<close>

definition new_rep :: "nat list \<Rightarrow> rep" where
  "new_rep c = \<lparr> points = [], color = c, peakM = None, aboveNetCM = None,
                 widthM = None, direction = None \<rparr>"

text \<open>\<^verbatim>\<open>calibPts = { LB, LT, RB, RT }\<close>, each \<^verbatim>\<open>null\<close> until clicked.\<close>

record calib_pts =
  LB :: "point option"
  LT :: "point option"
  RB :: "point option"
  RT :: "point option"

text \<open>
  The globals of the sketch. The video element is kept as its paused flag, its time and its
  duration; the stats block as its visibility; the five end-screen buttons as one flag. The
  colour index is a double that only ever counts up from zero, a natural number here.
\<close>

record session = geometry +
  ready :: bool
  warmed :: bool
  started :: bool
  trails :: "rep list"
  current :: rep
  showAllAtEnd :: bool
  showTrails :: bool
  calibStep :: nat
  calibPts :: calib_pts
  statsVisible :: bool
  paletteIdx :: nat
  vidPaused :: bool
  vidTime :: real
  vidDuration :: real
  statsDisplay :: bool
  buttonsShown :: bool

definition PALETTE :: "nat list list" where
  "PALETTE = [[255, 80, 80], [255, 160, 0], [255, 220, 0], [0, 190, 255],
              [80, 220, 160], [180, 120, 255], [255, 100, 200]]"

text \<open>\<^verbatim>\<open>nextColour\<close>: the colour at the index, and the index moved on by one.\<close>

definition nextColour :: "session \<Rightarrow> nat list \<times> session" where
  "nextColour s =
     (PALETTE ! (paletteIdx s mod length PALETTE), s\<lparr>paletteIdx := paletteIdx s + 1\<rparr>)"

text \<open>\<^verbatim>\<open>current = { points: [], color: nextColour() }\<close>.\<close>

definition fresh_current :: "session \<Rightarrow> session" where
  "fresh_current s = (case nextColour s of (c, s') \<Rightarrow> s'\<lparr>current := new_rep c\<rparr>)"

text \<open>\<^verbatim>\<open>updateDashboard\<close> shows the buttons on the end screen and hides them otherwise.\<close>

definition updateDashboard :: "session \<Rightarrow> session" where
  "updateDashboard s = s\<lparr>buttonsShown := (showAllAtEnd s \<and> calibStep s \<ge> 4)\<rparr>"

definition restartVideoHidden :: "session \<Rightarrow> session" where
  "restartVideoHidden s =
     updateDashboard
       ((fresh_current (s\<lparr>showAllAtEnd := False, showTrails := False, statsDisplay := False\<rparr>))
          \<lparr>vidTime := 0, vidPaused := False, started := True\<rparr>)"

text \<open>
  \<^verbatim>\<open>finalizeCalibration\<close>. Reading \<^verbatim>\<open>.y\<close> of a corner that is still \<^verbatim>\<open>null\<close> throws
  before anything is assigned: that is \<open>None\<close>.
\<close>

definition finalizeCalibration :: "session \<Rightarrow> session option" where
  "finalizeCalibration s =
     (case (LB (calibPts s), LT (calibPts s), RB (calibPts s), RT (calibPts s)) of
        (Some lb, Some lt, Some rb, Some rt) \<Rightarrow>
          Some (s\<lparr>pixelsPerMeter := Some (calib_scale lb lt rb rt),
                  topLine := Some \<lparr> line_m = calib_m lt rt, line_b = calib_b lt rt \<rparr>\<rparr>)
      | _ \<Rightarrow> None)"

text \<open>
  \<^verbatim>\<open>primeVideo\<close> starts the video; its timer, 150 ms later, pauses it and sets
  \<^verbatim>\<open>warmed\<close>.
\<close>

definition primeVideo :: "session \<Rightarrow> session" where
  "primeVideo s = (if warmed s then s else s\<lparr>vidPaused := False\<rparr>)"

definition primeTimeout :: "session \<Rightarrow> session" where
  "primeTimeout s = s\<lparr>vidPaused := True, warmed := True\<rparr>"

text \<open>
  \<^verbatim>\<open>mousePressed\<close>, at the mouse position \<open>(mouseX, mouseY)\<close>. An exception thrown by
  \<^verbatim>\<open>finalizeCalibration\<close> ends the handler with the globals as they are by then.
\<close>

definition mousePressed :: "real \<Rightarrow> real \<Rightarrow> session \<Rightarrow> session" where
  "mousePressed mouseX mouseY s =
     (if \<not> warmed s then primeVideo s
      else if calibStep s < 4 then
        let pt = \<lparr> xc = mouseX, yc = mouseY \<rparr>;
            cp = calibPts s;
            cp' = (if calibStep s = 0 then cp\<lparr>LB := Some pt\<rparr>
                   else if calibStep s = 1 then cp\<lparr>LT := Some pt\<rparr>
                   else if calibStep s = 2 then cp\<lparr>RB := Some pt\<rparr>
                   else if calibStep s = 3 then cp\<lparr>RT := Some pt\<rparr>
                   else cp);
            s1 = s\<lparr>calibPts := cp', calibStep := calibStep s + 1\<rparr>
        in if calibStep s1 = 4
           then (case finalizeCalibration s1 of Some s2 \<Rightarrow> s2 | None \<Rightarrow> s1)
           else s1
      else if \<not> started s then s\<lparr>vidPaused := False, started := True\<rparr>
      else if showAllAtEnd s then s
      else s\<lparr>current := (current s)
                \<lparr>points := points (current s) @
                     [\<lparr> xc = mouseX, yc = mouseY, tc = vidTime s \<rparr>]\<rparr>\<rparr>)"

text \<open>The key code \<^verbatim>\<open>ENTER\<close> of p5.js.\<close>

definition ENTER :: nat where
  "ENTER = 13"

text \<open>
  \<^verbatim>\<open>keyPressed\<close>, for the globals \<^verbatim>\<open>key\<close> and \<^verbatim>\<open>keyCode\<close> of the event, with the
  branches in the order of the source.
\<close>

definition keyPressed :: "string \<Rightarrow> nat \<Rightarrow> session \<Rightarrow> session" where
  "keyPressed key keyCode s =
     (if calibStep s < 4 then s
      else if key = '' '' then s\<lparr>vidPaused := \<not> vidPaused s\<rparr>
      else if key = ''N'' \<or> key = ''n'' then
        fresh_current
          (if points (current s) \<noteq> [] then s\<lparr>trails := trails s @ [current s]\<rparr> else s)
      else if key = ''Z'' \<or> key = ''z'' then
        (if points (current s) \<noteq> []
         then s\<lparr>current := (current s)\<lparr>points := butlast (points (current s))\<rparr>\<rparr>
         else s)
      else if key = '','' then
        (if \<not> showAllAtEnd s
         then s\<lparr>vidPaused := True, vidTime := max 0 (vidTime s - 1 / 30)\<rparr>
         else s)
      else if key = ''.'' then
        (if \<not> showAllAtEnd s
         then s\<lparr>vidPaused := True, vidTime := min (vidDuration s) (vidTime s + 1 / 30)\<rparr>
         else s)
      else if keyCode = ENTER then
        updateDashboard
          ((fresh_current
              (s\<lparr>showAllAtEnd := False, showTrails := False, statsDisplay := False\<rparr>))
             \<lparr>vidTime := 0, vidPaused := False\<rparr>)
      else if key = ''S'' \<or> key = ''s'' then restartVideoHidden s
      else if key = ''R'' \<or> key = ''r'' then
        updateDashboard
          ((fresh_current (s\<lparr>trails := []\<rparr>))
             \<lparr>showAllAtEnd := False, started := False,
              calibStep := 0,
              calibPts := \<lparr> LB = None, LT = None, RB = None, RT = None \<rparr>,
              pixelsPerMeter := None, topLine := None, warmed := False,
              statsDisplay := False,
              vidTime := 0, vidPaused := True, ready := True\<rparr>)
      else s)"

section \<open>Metrics per rep\<close>

text \<open>
  The inner loop of \<^verbatim>\<open>computeAllRepMetrics\<close> over the points of a rep, with the running
  maximum \<^verbatim>\<open>peakAboveM\<close>.
\<close>

fun peak_loop :: "'a geometry_scheme \<Rightarrow> rep_point list \<Rightarrow> jsnum \<Rightarrow> jsnum" where
  "peak_loop g [] peakAboveM = peakAboveM"
| "peak_loop g (p # ps) peakAboveM =
     peak_loop g ps
       (case metersAboveNetAtPoint g (xc p) (yc p) of
          None \<Rightarrow> peakAboveM
        | Some a \<Rightarrow> if jgt a peakAboveM then a else peakAboveM)"

text \<open>The body of the outer loop: the metrics of one rep.\<close>

definition computeRepMetrics :: "'a geometry_scheme \<Rightarrow> rep \<Rightarrow> rep" where
  "computeRepMetrics g r =
     (if length (points r) < 2
      then r\<lparr>peakM := None, aboveNetCM := None, widthM := None, direction := None\<rparr>
      else
        let peakAboveM = peak_loop g (points r) NInf;
            r1 = (if \<not> isFinite peakAboveM
                  then r\<lparr>peakM := None, aboveNetCM := None\<rparr>
                  else r\<lparr>peakM := Some (jadd NET_HEIGHT_M peakAboveM),
                         aboveNetCM := Some (jround (jmul peakAboveM (Num 100)))\<rparr>);
            start = points r ! 0;
            endp = points r ! (length (points r) - 1);
            wM = metersHorizDistance g start endp
        in r1\<lparr>widthM := wM,
               direction := Some (if xc endp > xc start then ArrowRight
                                  else if xc endp < xc start then ArrowLeft
                                  else Bullet)\<rparr>)"

definition computeAllRepMetrics :: "session \<Rightarrow> session" where
  "computeAllRepMetrics s = s\<lparr>trails := map (computeRepMetrics s) (trails s)\<rparr>"

section \<open>Stats table\<close>

text \<open>The accumulators of \<^verbatim>\<open>renderStatsTable\<close>.\<close>

record stats =
  bestIdx :: int
  bestVal :: jsnum
  sumPeak :: jsnum
  nPeak :: nat
  sumWidth :: jsnum
  nWidth :: nat

definition stats_init :: stats where
  "stats_init = \<lparr> bestIdx = - 1, bestVal = NInf, sumPeak = Num 0, nPeak = 0,
                   sumWidth = Num 0, nWidth = 0 \<rparr>"

text \<open>One round of the loop, for the rep \<open>r\<close> at index \<open>i\<close>.\<close>

definition stats_step :: "nat \<Rightarrow> rep \<Rightarrow> stats \<Rightarrow> stats" where
  "stats_step i r a =
     (let a1 = (case peakM r of
                  None \<Rightarrow> a
                | Some p \<Rightarrow>
                    let a' = (if jgt p (bestVal a) then a\<lparr>bestVal := p, bestIdx := int i\<rparr>
                              else a)
                    in a'\<lparr>sumPeak := jadd (sumPeak a') p, nPeak := nPeak a' + 1\<rparr>)
      in case widthM r of
           None \<Rightarrow> a1
         | Some w \<Rightarrow> a1\<lparr>sumWidth := jadd (sumWidth a1) w, nWidth := nWidth a1 + 1\<rparr>)"

fun stats_loop :: "rep list \<Rightarrow> nat \<Rightarrow> stats \<Rightarrow> stats" where
  "stats_loop [] i a = a"
| "stats_loop (r # rs) i a = stats_loop rs (i + 1) (stats_step i r a)"

text \<open>The accumulators after the loop over \<^verbatim>\<open>trails\<close>, and the two averages.\<close>

definition table_stats :: "rep list \<Rightarrow> stats" where
  "table_stats rs = stats_loop rs 0 stats_init"

definition avgPeak :: "rep list \<Rightarrow> jsnum option" where
  "avgPeak rs =
     (let a = table_stats rs
      in if nPeak a \<noteq> 0 then Some (jdiv (sumPeak a) (Num (real (nPeak a)))) else None)"

definition avgWidth :: "rep list \<Rightarrow> jsnum option" where
  "avgWidth rs =
     (let a = table_stats rs
      in if nWidth a \<noteq> 0 then Some (jdiv (sumWidth a) (Num (real (nWidth a)))) else None)"

section \<open>Start of a session and sample sessions\<close>

text \<open>
  The globals as the script declares them, for a video of duration \<open>d\<close>; the colour of
  \<^verbatim>\<open>current\<close> is \<^verbatim>\<open>null\<close>, the empty list here.
\<close>

definition initial_globals :: "real \<Rightarrow> session" where
  "initial_globals d =
     \<lparr> pixelsPerMeter = None, topLine = None,
       ready = False, warmed = False, started = False,
       trails = [], current = new_rep [],
       showAllAtEnd = False, showTrails = True,
       calibStep = 0, calibPts = \<lparr> LB = None, LT = None, RB = None, RT = None \<rparr>,
       statsVisible = True, paletteIdx = 0,
       vidPaused = True, vidTime = 0, vidDuration = d,
       statsDisplay = False, buttonsShown = False \<rparr>"

text \<open>What \<^verbatim>\<open>setup\<close> does to them: \<^verbatim>\<open>current.color = nextColour()\<close>.\<close>

definition run_setup :: "session \<Rightarrow> session" where
  "run_setup s = (case nextColour s of (c, s') \<Rightarrow> s'\<lparr>current := (current s')\<lparr>color := c\<rparr>\<rparr>)"

text \<open>A session after the priming click and its timer.\<close>

definition primed_session :: session where
  "primed_session = primeTimeout (mousePressed 0 0 (run_setup (initial_globals 60)))"

text \<open>
  The four calibration clicks of the end-to-end scenario: left bottom \<open>(100, 400)\<close>, left top
  \<open>(100, 100)\<close>, right bottom \<open>(700, 420)\<close>, right top \<open>(700, 120)\<close>.
\<close>

definition scenario_corners :: calib_pts where
  "scenario_corners =
     \<lparr> LB = Some \<lparr> xc = 100, yc = 400 \<rparr>, LT = Some \<lparr> xc = 100, yc = 100 \<rparr>,
       RB = Some \<lparr> xc = 700, yc = 420 \<rparr>, RT = Some \<lparr> xc = 700, yc = 120 \<rparr> \<rparr>"

text \<open>The primed session after the first three of them, and after all four.\<close>

definition three_clicks_session :: session where
  "three_clicks_session =
     mousePressed 700 420 (mousePressed 100 100 (mousePressed 100 400 primed_session))"

definition scenario_session :: session where
  "scenario_session = mousePressed 700 120 three_clicks_session"

text \<open>A calibration whose two top clicks share \<open>x = 100\<close>.\<close>

definition vertical_session :: session where
  "vertical_session = mousePressed 100 120 three_clicks_session"

text \<open>A calibration with each top click at the height of its bottom click.\<close>

definition flat_session :: session where
  "flat_session =
     mousePressed 700 420 (mousePressed 700 420 (mousePressed 100 400
       (mousePressed 100 400 primed_session)))"

text \<open>A rep of two points: \<open>(400, 50)\<close>, then a point below the tape.\<close>

definition scenario_rep :: rep where
  "scenario_rep =
     (new_rep [255, 80, 80])\<lparr>points :=
        [\<lparr> xc = 400, yc = 50, tc = 1 \<rparr>, \<lparr> xc = 520, yc = 300, tc = 2 \<rparr>]\<rparr>"

text \<open>Two more reps: one of a single point, and one whose peak ties with the scenario rep.\<close>

definition short_rep :: rep where
  "short_rep = (new_rep [255, 160, 0])\<lparr>points := [\<lparr> xc = 400, yc = 50, tc = 3 \<rparr>]\<rparr>"

definition tie_rep :: rep where
  "tie_rep =
     (new_rep [255, 220, 0])\<lparr>points :=
        [\<lparr> xc = 300, yc = 250, tc = 5 \<rparr>, \<lparr> xc = 400, yc = 50, tc = 6 \<rparr>]\<rparr>"

text \<open>The scenario session with these three reps recorded, at the end of the video.\<close>

definition ended_session :: session where
  "ended_session =
     computeAllRepMetrics (scenario_session\<lparr>trails := [scenario_rep, short_rep, tie_rep]\<rparr>)"

section \<open>The summaries in the words of the specification\<close>

text \<open>
  The peaks, and the widths, of the reps where they are defined, in rep order, and the
  arithmetic mean of a list of numbers. The accumulators of the stats table are compared with
  these below.
\<close>

definition defined_peaks :: "rep list \<Rightarrow> jsnum list" where
  "defined_peaks rs = List.map_filter peakM rs"

definition defined_widths :: "rep list \<Rightarrow> jsnum list" where
  "defined_widths rs = List.map_filter widthM rs"

definition arith_mean :: "real list \<Rightarrow> real" where
  "arith_mean xs = sum_list xs / real (length xs)"

section \<open>The sample sessions, evaluated\<close>

lemmas calib_defs = calib_scale_def hAvgPx_def hLeft_def hRight_def calib_m_def calib_b_def
  jsub_def NET_HEIGHT_M_def inf_of_sign_def

lemma primed_session_eq:
  "primed_session =
     (initial_globals 60)\<lparr>paletteIdx := 1, current := new_rep [255, 80, 80],
        warmed := True, vidPaused := True\<rparr>"
  by (simp add: primed_session_def primeTimeout_def mousePressed_def primeVideo_def
      run_setup_def nextColour_def initial_globals_def PALETTE_def new_rep_def)

lemma three_clicks_session_eq:
  "three_clicks_session =
     primed_session\<lparr>calibStep := 3,
        calibPts := \<lparr> LB = Some \<lparr> xc = 100, yc = 400 \<rparr>, LT = Some \<lparr> xc = 100, yc = 100 \<rparr>,
                      RB = Some \<lparr> xc = 700, yc = 420 \<rparr>, RT = None \<rparr>\<rparr>"
  by (simp add: three_clicks_session_def primed_session_eq mousePressed_def
      initial_globals_def)

lemma scenario_session_eq:
  "scenario_session =
     primed_session\<lparr>calibStep := 4, calibPts := scenario_corners,
        pixelsPerMeter := Some (Num (300 / 2.43)),
        topLine := Some \<lparr> line_m = Num (1 / 30), line_b = Num (290 / 3) \<rparr>\<rparr>"
  by (simp add: scenario_session_def three_clicks_session_eq primed_session_eq
      mousePressed_def initial_globals_def finalizeCalibration_def scenario_corners_def
      calib_defs)

lemma vertical_session_eq:
  "vertical_session =
     primed_session\<lparr>calibStep := 4,
        calibPts := scenario_corners\<lparr>RT := Some \<lparr> xc = 100, yc = 120 \<rparr>\<rparr>,
        pixelsPerMeter := Some (Num (300 / 2.43)),
        topLine := Some \<lparr> line_m = PInf, line_b = NInf \<rparr>\<rparr>"
  by (simp add: vertical_session_def three_clicks_session_eq primed_session_eq
      mousePressed_def initial_globals_def finalizeCalibration_def scenario_corners_def
      calib_defs)

lemma flat_session_eq:
  "flat_session =
     primed_session\<lparr>calibStep := 4,
        calibPts := \<lparr> LB = Some \<lparr> xc = 100, yc = 400 \<rparr>, LT = Some \<lparr> xc = 100, yc = 400 \<rparr>,
                      RB = Some \<lparr> xc = 700, yc = 420 \<rparr>, RT = Some \<lparr> xc = 700, yc = 420 \<rparr> \<rparr>,
        pixelsPerMeter := Some (Num 0),
        topLine := Some \<lparr> line_m = Num (1 / 30), line_b = Num (1190 / 3) \<rparr>\<rparr>"
  by (simp add: flat_session_def primed_session_eq mousePressed_def initial_globals_def
      finalizeCalibration_def calib_defs Let_def)

section \<open>The coordinate transform\<close>

text \<open>With a finite line and a finite non-zero scale the transform is the usual formula.\<close>

lemma metersAbove_finite:
  assumes "pixelsPerMeter g = Some (Num p)" and "p \<noteq> 0"
    and "topLine g = Some \<lparr> line_m = Num m, line_b = Num c \<rparr>"
  shows "metersAboveNetAtPoint g x y = Some (Num ((m * x + c - y) / p))"
  using assms by (simp add: metersAboveNetAtPoint_def jsub_def)

lemma metersAbove_scenario:
  "metersAboveNetAtPoint scenario_session x y
     = Some (Num ((x / 30 + 290 / 3 - y) / (300 / 2.43)))"
  by (simp add: metersAbove_finite [where p = "300 / 2.43" and m = "1 / 30" and c = "290 / 3"]
      scenario_session_eq)

lemma jdiv_zero_truthy: "truthy ppm \<Longrightarrow> jdiv (Num 0) ppm = Num 0"
  by (cases ppm) simp_all

text \<open>
  The value \<open>m*x + b\<close> of the line at \<open>x\<close> is a finite number, the height of a point, only
  when the slope and the intercept are finite.
\<close>

lemma tape_point_finite_line:
  assumes "jadd (jmul m (Num x)) c = Num y"
  shows "isFinite m \<and> isFinite c"
  using assms by (cases m; cases c) (simp_all add: inf_of_sign_def split: if_splits)

text \<open>
  Whenever the guard of \<^verbatim>\<open>metersAboveNetAtPoint\<close> lets the call through (the scale is a
  truthy number and the line is set), a point \<open>(x, y)\<close> whose \<open>y\<close> is the value \<open>m*x + b\<close>
  of the tape line at \<open>x\<close> is zero metres above the net.
\<close>

lemma on_line_zero:
  assumes "pixelsPerMeter g = Some ppm" and "truthy ppm" and "topLine g = Some tline"
    and "jadd (jmul (line_m tline) (Num x)) (line_b tline) = Num y"
  shows "metersAboveNetAtPoint g x y = Some (Num 0)"
  using assms by (simp add: metersAboveNetAtPoint_def jsub_def jdiv_zero_truthy)

section \<open>Keyboard during calibration\<close>

text \<open>
  Claim C9. While \<^verbatim>\<open>calibStep < 4\<close>, \<^verbatim>\<open>keyPressed\<close> returns at once: whatever the key
  (undo, end rep, full reset, play or pause, frame step, replay, restart or any other), every
  global is what it was.
\<close>

theorem keys_disabled_during_calibration:
  "calibStep s < 4 \<Longrightarrow> keyPressed key keyCode s = s"
  by (simp add: keyPressed_def)

text \<open>After three calibration clicks the key \<open>R\<close> resets nothing.\<close>

theorem keys_disabled_during_calibration_witness:
  "calibStep three_clicks_session < 4
   \<and> keyPressed ''R'' 82 three_clicks_session = three_clicks_session"
  using keys_disabled_during_calibration [of three_clicks_session "''R''" 82]
  by (simp add: three_clicks_session_eq)

section \<open>Reps with fewer than two points\<close>

text \<open>
  Claim C4. For a rep with no point or one point, \<^verbatim>\<open>computeAllRepMetrics\<close> sets
  \<^verbatim>\<open>peakM\<close>, \<^verbatim>\<open>aboveNetCM\<close>, \<^verbatim>\<open>widthM\<close> and \<^verbatim>\<open>direction\<close> to \<^verbatim>\<open>null\<close>, whatever
  the geometry.
\<close>

theorem short_rep_all_null:
  assumes "length (points r) < 2"
  shows "peakM (computeRepMetrics g r) = None \<and> aboveNetCM (computeRepMetrics g r) = None
       \<and> widthM (computeRepMetrics g r) = None \<and> direction (computeRepMetrics g r) = None"
  using assms by (simp add: computeRepMetrics_def)

text \<open>A rep of one point, in the scenario session.\<close>

theorem short_rep_all_null_witness:
  "length (points short_rep) < 2
   \<and> peakM (computeRepMetrics scenario_session short_rep) = None
   \<and> aboveNetCM (computeRepMetrics scenario_session short_rep) = None
   \<and> widthM (computeRepMetrics scenario_session short_rep) = None
   \<and> direction (computeRepMetrics scenario_session short_rep) = None"
proof -
  have "length (points short_rep) < 2"
    by (simp add: short_rep_def)
  then show ?thesis
    using short_rep_all_null [of short_rep scenario_session] by simp
qed

section \<open>The end-to-end scenario\<close>

lemma finalize_scenario:
  "finalizeCalibration (s\<lparr>calibPts := scenario_corners\<rparr>) =
     Some (s\<lparr>calibPts := scenario_corners, pixelsPerMeter := Some (Num (300 / 2.43)),
             topLine := Some \<lparr> line_m = Num (1 / 30), line_b = Num (290 / 3) \<rparr>\<rparr>)"
  by (simp add: finalizeCalibration_def scenario_corners_def calib_defs)

text \<open>The peak of a rep of two points, in either order, is the higher of the two.\<close>

lemma peak_two_points:
  assumes "metersAboveNetAtPoint g (xc p) (yc p) = Some (Num a)"
    and "metersAboveNetAtPoint g (xc q) (yc q) = Some (Num c)" and "c < a"
  shows "peak_loop g [p, q] NInf = Num a" and "peak_loop g [q, p] NInf = Num a"
  using assms by simp_all

text \<open>
  Claim C1. With the corners \<open>(100, 400)\<close>, \<open>(100, 100)\<close>, \<open>(700, 420)\<close>, \<open>(700, 120)\<close> and
  a net height of 2.43, \<^verbatim>\<open>finalizeCalibration\<close> computes \<open>hLeft = hRight = 300\<close>, a scale
  of \<open>300 / 2.43\<close> pixels per metre, the slope \<open>1/30\<close> and the intercept \<open>290/3\<close>. With that
  geometry the point \<open>(400, 50)\<close> is 0.486 m above the net, and a rep made of that point and
  one other point strictly below the tape line at its own \<open>x\<close> (in either order) gets the peak
  height 2.916 m and 49 cm above the net.
\<close>

theorem end_to_end_scenario:
  assumes "finalizeCalibration (s\<lparr>calibPts := scenario_corners\<rparr>) = Some s'"
    and "points r = [p, q] \<or> points r = [q, p]"
    and "xc p = 400" and "yc p = 50"
    and "yc q > xc q / 30 + 290 / 3"
  shows "hLeft \<lparr> xc = 100, yc = 400 \<rparr> \<lparr> xc = 100, yc = 100 \<rparr> = Num 300
       \<and> hRight \<lparr> xc = 700, yc = 420 \<rparr> \<lparr> xc = 700, yc = 120 \<rparr> = Num 300
       \<and> pixelsPerMeter s' = Some (Num (300 / 2.43))
       \<and> topLine s' = Some \<lparr> line_m = Num (1 / 30), line_b = Num (290 / 3) \<rparr>
       \<and> metersAboveNetAtPoint s' 400 50 = Some (Num 0.486)
       \<and> peakM (computeRepMetrics s' r) = Some (Num 2.916)
       \<and> aboveNetCM (computeRepMetrics s' r) = Some (Num 49)"
proof -
  have s': "pixelsPerMeter s' = Some (Num (300 / 2.43))"
    "topLine s' = Some \<lparr> line_m = Num (1 / 30), line_b = Num (290 / 3) \<rparr>"
    using assms(1) by (auto simp: finalize_scenario)
  have above: "metersAboveNetAtPoint s' x y = Some (Num ((x / 30 + 290 / 3 - y) / (300 / 2.43)))"
    for x y
    using s'
    by (simp add: metersAbove_finite [where p = "300 / 2.43" and m = "1 / 30" and c = "290 / 3"])
  have ap: "metersAboveNetAtPoint s' (xc p) (yc p) = Some (Num 0.486)"
    by (simp add: above assms(3,4))
  have "(xc q / 30 + 290 / 3 - yc q) / (300 / 2.43) < 0"
    using assms(5) by (simp add: divide_neg_pos)
  then have lt: "(xc q / 30 + 290 / 3 - yc q) / (300 / 2.43) < 0.486"
    by (rule less_trans) simp
  have peak: "peak_loop s' (points r) NInf = Num 0.486"
    using assms(2) peak_two_points [OF ap above lt] by auto
  have len: "\<not> length (points r) < 2"
    using assms(2) by auto
  have "peakM (computeRepMetrics s' r) = Some (Num 2.916)"
    using len peak by (simp add: computeRepMetrics_def Let_def NET_HEIGHT_M_def)
  moreover have "aboveNetCM (computeRepMetrics s' r) = Some (Num 49)"
    using len peak by (simp add: computeRepMetrics_def Let_def)
  moreover have "metersAboveNetAtPoint s' 400 50 = Some (Num 0.486)"
    by (simp add: above)
  ultimately show ?thesis
    using s' by (simp add: hLeft_def hRight_def jsub_def)
qed

text \<open>The scenario session and the scenario rep.\<close>

theorem end_to_end_scenario_witness:
  "finalizeCalibration (scenario_session\<lparr>calibPts := scenario_corners\<rparr>) = Some scenario_session
   \<and> points scenario_rep = [\<lparr> xc = 400, yc = 50, tc = 1 \<rparr>, \<lparr> xc = 520, yc = 300, tc = 2 \<rparr>]
   \<and> (300::real) > 520 / 30 + 290 / 3
   \<and> pixelsPerMeter scenario_session = Some (Num (300 / 2.43))
   \<and> topLine scenario_session = Some \<lparr> line_m = Num (1 / 30), line_b = Num (290 / 3) \<rparr>
   \<and> metersAboveNetAtPoint scenario_session 400 50 = Some (Num 0.486)
   \<and> peakM (computeRepMetrics scenario_session scenario_rep) = Some (Num 2.916)
   \<and> aboveNetCM (computeRepMetrics scenario_session scenario_rep) = Some (Num 49)"
proof -
  have fin: "finalizeCalibration (scenario_session\<lparr>calibPts := scenario_corners\<rparr>)
      = Some scenario_session"
    by (simp add: finalize_scenario scenario_session_eq)
  have pts: "points scenario_rep
      = [\<lparr> xc = 400, yc = 50, tc = 1 \<rparr>, \<lparr> xc = 520, yc = 300, tc = 2 \<rparr>]"
    by (simp add: scenario_rep_def)
  show ?thesis
    using end_to_end_scenario [of scenario_session scenario_session scenario_rep
        "\<lparr> xc = 400, yc = 50, tc = 1 \<rparr>" "\<lparr> xc = 520, yc = 300, tc = 2 \<rparr>"] fin pts
    by simp
qed

section \<open>A scale of zero\<close>

lemma peak_loop_no_value:
  assumes "\<And>x y. metersAboveNetAtPoint g x y = None"
  shows "peak_loop g ps a = a"
  by (induction ps arbitrary: a) (simp_all add: assms)

lemma zero_scale_above: "pixelsPerMeter g = Some (Num 0) \<Longrightarrow> metersAboveNetAtPoint g x y = None"
  by (simp add: metersAboveNetAtPoint_def)

lemma zero_scale_horiz: "pixelsPerMeter g = Some (Num 0) \<Longrightarrow> metersHorizDistance g p1 p2 = None"
  by (simp add: metersHorizDistance_def)

lemma zero_scale_metrics:
  assumes "pixelsPerMeter g = Some (Num 0)"
  shows "peakM (computeRepMetrics g r) = None \<and> aboveNetCM (computeRepMetrics g r) = None
       \<and> widthM (computeRepMetrics g r) = None"
  using assms
  by (simp add: computeRepMetrics_def Let_def peak_loop_no_value zero_scale_above zero_scale_horiz)

lemma finalize_fields:
  assumes "finalizeCalibration s = Some s'"
  shows "\<exists>lb lt rb rt. calibPts s = \<lparr> LB = Some lb, LT = Some lt, RB = Some rb, RT = Some rt \<rparr>
     \<and> s' = s\<lparr>pixelsPerMeter := Some (calib_scale lb lt rb rt),
               topLine := Some \<lparr> line_m = calib_m lt rt, line_b = calib_b lt rt \<rparr>\<rparr>"
  using assms
  by (cases "calibPts s") (auto simp: finalizeCalibration_def split: option.splits)

lemma calib_scale_eq:
  "calib_scale lb lt rb rt = Num ((\<bar>yc lt - yc lb\<bar> + \<bar>yc rt - yc rb\<bar>) / 2 / (243 / 100))"
  by (simp add: calib_defs)

text \<open>The scale is zero exactly when both antenna heights are.\<close>

lemma zero_scale_iff:
  "calib_scale lb lt rb rt = Num 0 \<longleftrightarrow> yc lt = yc lb \<and> yc rt = yc rb"
  by (auto simp: calib_scale_eq abs_if split: if_splits)

text \<open>
  Claim C10. When each top click has the pixel \<open>y\<close> of its bottom click, both antenna heights
  and the scale \<^verbatim>\<open>pixelsPerMeter\<close> are 0. The guards \<^verbatim>\<open>!pixelsPerMeter\<close> take a zero
  scale for a missing one: \<^verbatim>\<open>metersAboveNetAtPoint\<close> and \<^verbatim>\<open>metersHorizDistance\<close> return
  \<^verbatim>\<open>null\<close> and do not divide, and the peak height, the centimetres above the net and the
  width of every rep of the session are \<^verbatim>\<open>null\<close>.
\<close>

theorem zero_scale_is_missing_geometry:
  assumes "finalizeCalibration s = Some s'"
    and "LB (calibPts s) = Some lb" and "LT (calibPts s) = Some lt"
    and "RB (calibPts s) = Some rb" and "RT (calibPts s) = Some rt"
    and "yc lt = yc lb" and "yc rt = yc rb"
  shows "hLeft lb lt = Num 0 \<and> hRight rb rt = Num 0
       \<and> pixelsPerMeter s' = Some (Num 0)
       \<and> metersAboveNetAtPoint s' x y = None
       \<and> metersHorizDistance s' p1 p2 = None
       \<and> peakM (computeRepMetrics s' r) = None
       \<and> aboveNetCM (computeRepMetrics s' r) = None
       \<and> widthM (computeRepMetrics s' r) = None
       \<and> (\<forall>r' \<in> set (trails (computeAllRepMetrics s')).
             peakM r' = None \<and> aboveNetCM r' = None \<and> widthM r' = None)"
proof -
  have ppm: "pixelsPerMeter s' = Some (Num 0)"
    using finalize_fields [OF assms(1)] assms(2-7) by (auto simp: calib_scale_eq)
  have "hLeft lb lt = Num 0" "hRight rb rt = Num 0"
    using assms(6,7) by (simp_all add: hLeft_def hRight_def jsub_def)
  moreover have "\<forall>r' \<in> set (trails (computeAllRepMetrics s')).
             peakM r' = None \<and> aboveNetCM r' = None \<and> widthM r' = None"
    using zero_scale_metrics [OF ppm] by (auto simp: computeAllRepMetrics_def)
  ultimately show ?thesis
    using ppm zero_scale_above [OF ppm] zero_scale_horiz [OF ppm] zero_scale_metrics [OF ppm]
    by simp
qed

lemma flat_finalize: "finalizeCalibration flat_session = Some flat_session"
  by (simp add: flat_session_eq finalizeCalibration_def calib_defs)

text \<open>The flat session and the scenario rep.\<close>

theorem zero_scale_is_missing_geometry_witness:
  "finalizeCalibration flat_session = Some flat_session
   \<and> LB (calibPts flat_session) = Some \<lparr> xc = 100, yc = 400 \<rparr>
   \<and> LT (calibPts flat_session) = Some \<lparr> xc = 100, yc = 400 \<rparr>
   \<and> RB (calibPts flat_session) = Some \<lparr> xc = 700, yc = 420 \<rparr>
   \<and> RT (calibPts flat_session) = Some \<lparr> xc = 700, yc = 420 \<rparr>
   \<and> pixelsPerMeter flat_session = Some (Num 0)
   \<and> metersAboveNetAtPoint flat_session 400 50 = None
   \<and> metersHorizDistance flat_session \<lparr> xc = 400, yc = 50 \<rparr> \<lparr> xc = 520, yc = 300 \<rparr> = None
   \<and> peakM (computeRepMetrics flat_session scenario_rep) = None
   \<and> aboveNetCM (computeRepMetrics flat_session scenario_rep) = None
   \<and> widthM (computeRepMetrics flat_session scenario_rep) = None"
  using zero_scale_is_missing_geometry [of flat_session flat_session
      "\<lparr> xc = 100, yc = 400 \<rparr>" "\<lparr> xc = 100, yc = 400 \<rparr>"
      "\<lparr> xc = 700, yc = 420 \<rparr>" "\<lparr> xc = 700, yc = 420 \<rparr>"
      400 50 "\<lparr> xc = 400, yc = 50 \<rparr>" "\<lparr> xc = 520, yc = 300 \<rparr>" scenario_rep]
    flat_finalize
  by (simp add: flat_session_eq)

section \<open>Ending an empty rep\<close>

text \<open>
  Claim C3 as stated fails: in the calibrated scenario session, whose active rep is empty,
  the key \<open>N\<close> moves the colour index from 1 to 2 and gives the active rep the next colour.
\<close>

theorem end_rep_on_empty_counterexample:
  "4 \<le> calibStep scenario_session
   \<and> points (current scenario_session) = []
   \<and> keyPressed ''N'' 78 scenario_session \<noteq> scenario_session
   \<and> paletteIdx scenario_session = 1
   \<and> paletteIdx (keyPressed ''N'' 78 scenario_session) = 2
   \<and> color (current scenario_session) = [255, 80, 80]
   \<and> color (current (keyPressed ''N'' 78 scenario_session)) = [255, 160, 0]"
proof -
  have idx: "paletteIdx (keyPressed ''N'' 78 scenario_session) = 2"
    by (simp add: keyPressed_def fresh_current_def nextColour_def scenario_session_eq
        primed_session_eq initial_globals_def new_rep_def)
  have "paletteIdx scenario_session = 1"
    by (simp add: scenario_session_eq primed_session_eq initial_globals_def)
  with idx have "keyPressed ''N'' 78 scenario_session \<noteq> scenario_session"
    by auto
  then show ?thesis
    using idx
    by (simp add: keyPressed_def fresh_current_def nextColour_def scenario_session_eq
        primed_session_eq initial_globals_def new_rep_def PALETTE_def)
qed

text \<open>
  Claim C3, amended. After calibration, with an active rep of zero points, the key \<open>N\<close> (or
  \<open>n\<close>) appends nothing to \<^verbatim>\<open>trails\<close> and leaves the active rep empty; it does replace
  the active rep by a fresh one in the next palette colour and moves the colour index on by
  one. No other global changes.
\<close>

theorem end_rep_on_empty:
  assumes "4 \<le> calibStep s" and "points (current s) = []" and "key = ''N'' \<or> key = ''n''"
  shows "keyPressed key keyCode s =
           s\<lparr>paletteIdx := paletteIdx s + 1,
             current := new_rep (PALETTE ! (paletteIdx s mod length PALETTE))\<rparr>
       \<and> trails (keyPressed key keyCode s) = trails s
       \<and> points (current (keyPressed key keyCode s)) = []
       \<and> paletteIdx (keyPressed key keyCode s) = paletteIdx s + 1"
  using assms by (auto simp: keyPressed_def fresh_current_def nextColour_def new_rep_def)

text \<open>The key \<open>n\<close> in the scenario session, whose active rep is empty.\<close>

theorem end_rep_on_empty_witness:
  "4 \<le> calibStep scenario_session \<and> points (current scenario_session) = []
   \<and> trails (keyPressed ''n'' 78 scenario_session) = trails scenario_session
   \<and> points (current (keyPressed ''n'' 78 scenario_session)) = []
   \<and> paletteIdx (keyPressed ''n'' 78 scenario_session) = paletteIdx scenario_session + 1"
  using end_rep_on_empty [of scenario_session "''n''" 78]
  by (simp add: scenario_session_eq primed_session_eq initial_globals_def new_rep_def)

section \<open>Top clicks that share an x-coordinate\<close>

lemma calib_m_vertical:
  assumes "xc rt = xc lt"
  shows "calib_m lt rt = (if yc rt > yc lt then PInf else if yc rt < yc lt then NInf else NaN)"
  using assms by (simp add: calib_m_def jsub_def inf_of_sign_def)

lemma jmul_not_finite: "\<not> isFinite a \<Longrightarrow> \<not> isFinite (jmul a c)"
  by (cases a; cases c) (simp_all add: inf_of_sign_def)

lemma jsub_not_finite: "\<not> isFinite c \<Longrightarrow> \<not> isFinite (jsub a c)"
  by (cases a; cases c) (simp_all add: jsub_def)

lemma calib_b_vertical:
  assumes "xc rt = xc lt"
  shows "\<not> isFinite (calib_b lt rt)"
  unfolding calib_b_def
  by (rule jsub_not_finite, rule jmul_not_finite) (simp add: calib_m_vertical [OF assms])

lemma calib_m_finite:
  assumes "xc rt \<noteq> xc lt"
  shows "calib_m lt rt = Num ((yc rt - yc lt) / (xc rt - xc lt))"
  using assms by (simp add: calib_m_def jsub_def)

lemma calib_b_finite:
  assumes "xc rt \<noteq> xc lt"
  shows "calib_b lt rt = Num (yc lt - (yc rt - yc lt) / (xc rt - xc lt) * xc lt)"
  using assms by (simp add: calib_b_def calib_m_finite jsub_def)

text \<open>
  Claim C2 as stated fails: after the three clicks of the scenario, a fourth click at
  \<open>(100, 120)\<close>, with the \<open>x\<close> of the left top click, is taken like any other. Calibration
  completes and the line has the slope \<^verbatim>\<open>Infinity\<close> and the intercept \<^verbatim>\<open>-Infinity\<close>.
\<close>

theorem degenerate_calibration_counterexample:
  "warmed three_clicks_session \<and> calibStep three_clicks_session = 3
   \<and> LT (calibPts three_clicks_session) = Some \<lparr> xc = 100, yc = 100 \<rparr>
   \<and> calibStep (mousePressed 100 120 three_clicks_session) = 4
   \<and> RT (calibPts (mousePressed 100 120 three_clicks_session)) = Some \<lparr> xc = 100, yc = 120 \<rparr>
   \<and> topLine (mousePressed 100 120 three_clicks_session)
        = Some \<lparr> line_m = PInf, line_b = NInf \<rparr>"
proof -
  have "mousePressed 100 120 three_clicks_session = vertical_session"
    by (simp add: vertical_session_def)
  then show ?thesis
    by (simp add: vertical_session_eq)
       (simp add: three_clicks_session_eq primed_session_eq initial_globals_def scenario_corners_def)
qed

text \<open>
  Claim C2, amended. A fourth calibration click with the \<open>x\<close> of the left top click raises no
  condition and is not rejected: \<^verbatim>\<open>calibStep\<close> becomes 4, the click is stored as the right
  top corner, the scale is set, and the line is set with a slope that is not finite
  (\<^verbatim>\<open>Infinity\<close>, \<^verbatim>\<open>-Infinity\<close>, or \<^verbatim>\<open>NaN\<close> when the two top clicks also share \<open>y\<close>) and
  an intercept that is not finite either.
\<close>

theorem degenerate_calibration_accepted:
  assumes "warmed s" and "calibStep s = 3"
    and "LB (calibPts s) = Some lb" and "LT (calibPts s) = Some lt"
    and "RB (calibPts s) = Some rb"
    and "mouseX = xc lt"
  shows "calibStep (mousePressed mouseX mouseY s) = 4
       \<and> RT (calibPts (mousePressed mouseX mouseY s)) = Some \<lparr> xc = mouseX, yc = mouseY \<rparr>
       \<and> pixelsPerMeter (mousePressed mouseX mouseY s)
            = Some (calib_scale lb lt rb \<lparr> xc = mouseX, yc = mouseY \<rparr>)
       \<and> (\<exists>tline. topLine (mousePressed mouseX mouseY s) = Some tline
             \<and> line_m tline = (if mouseY > yc lt then PInf
                                else if mouseY < yc lt then NInf else NaN)
             \<and> \<not> isFinite (line_m tline) \<and> \<not> isFinite (line_b tline))"
proof -
  let ?rt = "\<lparr> xc = mouseX, yc = mouseY \<rparr>"
  have m: "calib_m lt ?rt = (if mouseY > yc lt then PInf else if mouseY < yc lt then NInf else NaN)"
    using calib_m_vertical [of ?rt lt] assms(6) by simp
  then have "\<not> isFinite (calib_m lt ?rt)"
    by simp
  moreover have "\<not> isFinite (calib_b lt ?rt)"
    using calib_b_vertical [of ?rt lt] assms(6) by simp
  moreover have "mousePressed mouseX mouseY s =
      s\<lparr>calibPts := (calibPts s)\<lparr>RT := Some ?rt\<rparr>, calibStep := 4,
        pixelsPerMeter := Some (calib_scale lb lt rb ?rt),
        topLine := Some \<lparr> line_m = calib_m lt ?rt, line_b = calib_b lt ?rt \<rparr>\<rparr>"
    using assms(1-5) by (simp add: mousePressed_def finalizeCalibration_def Let_def)
  ultimately show ?thesis
    using m by simp
qed

text \<open>A fourth click on the very position of the left top click: the slope is \<^verbatim>\<open>NaN\<close>.\<close>

theorem degenerate_calibration_accepted_witness:
  "warmed three_clicks_session \<and> calibStep three_clicks_session = 3
   \<and> LB (calibPts three_clicks_session) = Some \<lparr> xc = 100, yc = 400 \<rparr>
   \<and> LT (calibPts three_clicks_session) = Some \<lparr> xc = 100, yc = 100 \<rparr>
   \<and> RB (calibPts three_clicks_session) = Some \<lparr> xc = 700, yc = 420 \<rparr>
   \<and> calibStep (mousePressed 100 100 three_clicks_session) = 4
   \<and> (\<exists>tline. topLine (mousePressed 100 100 three_clicks_session) = Some tline
         \<and> line_m tline = NaN \<and> \<not> isFinite (line_b tline))"
proof -
  have h: "warmed three_clicks_session" "calibStep three_clicks_session = 3"
    "LB (calibPts three_clicks_session) = Some \<lparr> xc = 100, yc = 400 \<rparr>"
    "LT (calibPts three_clicks_session) = Some \<lparr> xc = 100, yc = 100 \<rparr>"
    "RB (calibPts three_clicks_session) = Some \<lparr> xc = 700, yc = 420 \<rparr>"
    by (simp_all add: three_clicks_session_eq primed_session_eq initial_globals_def)
  show ?thesis
    using degenerate_calibration_accepted [OF h, of 100 100] h by auto
qed

section \<open>Monotonicity in the pixel height\<close>

lemma calib_scale_nonneg: "\<exists>p. calib_scale lb lt rb rt = Num p \<and> 0 \<le> p"
proof -
  have "0 \<le> (\<bar>yc lt - yc lb\<bar> + \<bar>yc rt - yc rb\<bar>) / 2 / (243 / 100)"
    by simp
  then show ?thesis
    unfolding calib_scale_eq by blast
qed

lemma metersAbove_decreasing:
  assumes "pixelsPerMeter g = Some (Num p)" and "0 < p"
    and "topLine g = Some \<lparr> line_m = Num m, line_b = Num c \<rparr>"
    and "y1 < y2"
  shows "\<exists>a1 a2. metersAboveNetAtPoint g x y1 = Some (Num a1)
           \<and> metersAboveNetAtPoint g x y2 = Some (Num a2) \<and> a2 < a1"
  using assms by (simp add: metersAbove_finite divide_strict_right_mono)

text \<open>
  Claim C8 as stated fails on a completed calibration whose top clicks share \<open>x\<close>: in the
  vertical session both \<open>(400, 50)\<close> and \<open>(400, 60)\<close> are mapped to \<^verbatim>\<open>NaN\<close>, and
  \<^verbatim>\<open>NaN > NaN\<close> is false.
\<close>

theorem monotone_counterexample:
  "calibStep vertical_session = 4
   \<and> pixelsPerMeter vertical_session = Some (Num (300 / 2.43))
   \<and> topLine vertical_session = Some \<lparr> line_m = PInf, line_b = NInf \<rparr>
   \<and> (50::real) < 60
   \<and> metersAboveNetAtPoint vertical_session 400 50 = Some NaN
   \<and> metersAboveNetAtPoint vertical_session 400 60 = Some NaN
   \<and> \<not> jgt NaN NaN"
  by (simp add: vertical_session_eq metersAboveNetAtPoint_def jsub_def inf_of_sign_def)

text \<open>
  Claim C8, amended. For a geometry that \<^verbatim>\<open>finalizeCalibration\<close> derived from top clicks of
  different \<open>x\<close> and whose scale passes the guard (it is not zero), and for a fixed \<open>x\<close> and
  pixel heights \<open>y1 < y2\<close>, both points get a value and the value at \<open>y1\<close> is strictly greater
  than the value at \<open>y2\<close>.
\<close>

theorem metersAbove_strictly_decreasing:
  assumes "finalizeCalibration s = Some s'"
    and "LT (calibPts s) = Some lt" and "RT (calibPts s) = Some rt"
    and "xc lt \<noteq> xc rt"
    and "pixelsPerMeter s' = Some ppm" and "truthy ppm"
    and "y1 < y2"
  shows "\<exists>a1 a2. metersAboveNetAtPoint s' x y1 = Some a1
           \<and> metersAboveNetAtPoint s' x y2 = Some a2 \<and> jgt a1 a2"
proof -
  obtain lb lt' rb rt' where
    cp: "calibPts s = \<lparr> LB = Some lb, LT = Some lt', RB = Some rb, RT = Some rt' \<rparr>"
    and s': "s' = s\<lparr>pixelsPerMeter := Some (calib_scale lb lt' rb rt'),
               topLine := Some \<lparr> line_m = calib_m lt' rt', line_b = calib_b lt' rt' \<rparr>\<rparr>"
    using finalize_fields [OF assms(1)] by blast
  have eq: "lt' = lt" "rt' = rt"
    using cp assms(2,3) by simp_all
  obtain p where p: "calib_scale lb lt rb rt = Num p" "0 \<le> p"
    using calib_scale_nonneg by blast
  have "ppm = Num p"
    using assms(5) s' eq p by simp
  then have "0 < p"
    using assms(6) p(2) by simp
  moreover have "pixelsPerMeter s' = Some (Num p)"
    using s' eq p by simp
  moreover have "topLine s' = Some \<lparr> line_m = Num ((yc rt - yc lt) / (xc rt - xc lt)),
      line_b = Num (yc lt - (yc rt - yc lt) / (xc rt - xc lt) * xc lt) \<rparr>"
    using s' eq assms(4) by (simp add: calib_m_finite calib_b_finite)
  ultimately obtain a1 a2 where "metersAboveNetAtPoint s' x y1 = Some (Num a1)"
    "metersAboveNetAtPoint s' x y2 = Some (Num a2)" "a2 < a1"
    using metersAbove_decreasing [OF _ _ _ assms(7)] by blast
  then show ?thesis
    by simp
qed

text \<open>The scenario session, at \<open>x = 400\<close> and the heights 50 and 60.\<close>

theorem metersAbove_strictly_decreasing_witness:
  "finalizeCalibration scenario_session = Some scenario_session
   \<and> LT (calibPts scenario_session) = Some \<lparr> xc = 100, yc = 100 \<rparr>
   \<and> RT (calibPts scenario_session) = Some \<lparr> xc = 700, yc = 120 \<rparr>
   \<and> pixelsPerMeter scenario_session = Some (Num (300 / 2.43))
   \<and> truthy (Num (300 / 2.43))
   \<and> (\<exists>a1 a2. metersAboveNetAtPoint scenario_session 400 50 = Some a1
           \<and> metersAboveNetAtPoint scenario_session 400 60 = Some a2 \<and> jgt a1 a2)"
proof -
  have fin: "finalizeCalibration scenario_session = Some scenario_session"
    by (simp add: scenario_session_eq finalizeCalibration_def scenario_corners_def calib_defs)
  have cp: "LT (calibPts scenario_session) = Some \<lparr> xc = 100, yc = 100 \<rparr>"
    "RT (calibPts scenario_session) = Some \<lparr> xc = 700, yc = 120 \<rparr>"
    "pixelsPerMeter scenario_session = Some (Num (300 / 2.43))"
    by (simp_all add: scenario_session_eq scenario_corners_def)
  show ?thesis
    using metersAbove_strictly_decreasing [OF fin cp(1,2) _ cp(3), of 50 60 400] fin cp
    by simp
qed

section \<open>Points on the tape line\<close>

text \<open>
  Claim C7 as stated fails on two completed calibrations. In the flat session the scale is
  zero: the line passes through \<open>(400, 410)\<close>, and that point gets \<^verbatim>\<open>null\<close>, not 0. In the
  vertical session the line is not finite: its value at \<open>x = 400\<close> is \<^verbatim>\<open>NaN\<close>, so no point
  lies on it there.
\<close>

theorem tape_line_zero_counterexample:
  "calibStep flat_session = 4
   \<and> pixelsPerMeter flat_session = Some (Num 0)
   \<and> topLine flat_session = Some \<lparr> line_m = Num (1 / 30), line_b = Num (1190 / 3) \<rparr>
   \<and> jadd (jmul (Num (1 / 30)) (Num 400)) (Num (1190 / 3)) = Num 410
   \<and> metersAboveNetAtPoint flat_session 400 410 = None
   \<and> calibStep vertical_session = 4
   \<and> pixelsPerMeter vertical_session = Some (Num (300 / 2.43))
   \<and> topLine vertical_session = Some \<lparr> line_m = PInf, line_b = NInf \<rparr>
   \<and> jadd (jmul PInf (Num 400)) NInf = NaN"
  by (simp add: flat_session_eq vertical_session_eq metersAboveNetAtPoint_def inf_of_sign_def)

text \<open>
  Claim C7, amended. For a geometry that \<^verbatim>\<open>finalizeCalibration\<close> derived from top clicks of
  different \<open>x\<close> and whose scale passes the guard (it is not zero), and for every \<open>x\<close>, the
  slope \<open>m\<close> and the intercept \<open>c\<close> are finite numbers, so the value of the line at \<open>x\<close> is
  the finite number \<open>m*x + c\<close>, and the point \<open>(x, m*x + c)\<close> is zero metres above the net.
\<close>

theorem tape_line_zero:
  assumes "finalizeCalibration s = Some s'"
    and "LT (calibPts s) = Some lt" and "RT (calibPts s) = Some rt"
    and "xc lt \<noteq> xc rt"
    and "pixelsPerMeter s' = Some ppm" and "truthy ppm"
  shows "\<exists>m c. topLine s' = Some \<lparr> line_m = Num m, line_b = Num c \<rparr>
           \<and> jadd (jmul (Num m) (Num x)) (Num c) = Num (m * x + c)
           \<and> metersAboveNetAtPoint s' x (m * x + c) = Some (Num 0)"
proof -
  obtain lb lt' rb rt' where
    cp: "calibPts s = \<lparr> LB = Some lb, LT = Some lt', RB = Some rb, RT = Some rt' \<rparr>"
    and s': "s' = s\<lparr>pixelsPerMeter := Some (calib_scale lb lt' rb rt'),
               topLine := Some \<lparr> line_m = calib_m lt' rt', line_b = calib_b lt' rt' \<rparr>\<rparr>"
    using finalize_fields [OF assms(1)] by blast
  have eq: "lt' = lt" "rt' = rt"
    using cp assms(2,3) by simp_all
  let ?m = "(yc rt - yc lt) / (xc rt - xc lt)"
  let ?c = "yc lt - (yc rt - yc lt) / (xc rt - xc lt) * xc lt"
  have line: "topLine s' = Some \<lparr> line_m = Num ?m, line_b = Num ?c \<rparr>"
    using s' eq assms(4) by (simp add: calib_m_finite calib_b_finite)
  have val: "jadd (jmul (Num ?m) (Num x)) (Num ?c) = Num (?m * x + ?c)"
    by simp
  have "metersAboveNetAtPoint s' x (?m * x + ?c) = Some (Num 0)"
    using on_line_zero [OF assms(5,6) line] val by simp
  then show ?thesis
    using line val by blast
qed

text \<open>In the scenario the tape line passes through \<open>(400, 110)\<close>.\<close>

theorem tape_line_zero_witness:
  "finalizeCalibration scenario_session = Some scenario_session
   \<and> LT (calibPts scenario_session) = Some \<lparr> xc = 100, yc = 100 \<rparr>
   \<and> RT (calibPts scenario_session) = Some \<lparr> xc = 700, yc = 120 \<rparr>
   \<and> pixelsPerMeter scenario_session = Some (Num (300 / 2.43))
   \<and> truthy (Num (300 / 2.43))
   \<and> topLine scenario_session = Some \<lparr> line_m = Num (1 / 30), line_b = Num (290 / 3) \<rparr>
   \<and> metersAboveNetAtPoint scenario_session 400 110 = Some (Num 0)"
proof -
  have fin: "finalizeCalibration scenario_session = Some scenario_session"
    by (simp add: scenario_session_eq finalizeCalibration_def scenario_corners_def calib_defs)
  have cp: "LT (calibPts scenario_session) = Some \<lparr> xc = 100, yc = 100 \<rparr>"
    "RT (calibPts scenario_session) = Some \<lparr> xc = 700, yc = 120 \<rparr>"
    "pixelsPerMeter scenario_session = Some (Num (300 / 2.43))"
    by (simp_all add: scenario_session_eq scenario_corners_def)
  have line: "topLine scenario_session
      = Some \<lparr> line_m = Num (1 / 30), line_b = Num (290 / 3) \<rparr>"
    by (simp add: scenario_session_eq)
  obtain m c where mc: "topLine scenario_session = Some \<lparr> line_m = Num m, line_b = Num c \<rparr>"
    "metersAboveNetAtPoint scenario_session 400 (m * 400 + c) = Some (Num 0)"
    using tape_line_zero [OF fin cp(1,2) _ cp(3), of 400] by auto
  have mv: "m = 1 / 30" "c = 290 / 3"
    using mc(1) line by simp_all
  have "m * 400 + c = 110"
    unfolding mv by simp
  then have "metersAboveNetAtPoint scenario_session 400 110 = Some (Num 0)"
    using mc(2) by simp
  then show ?thesis
    using fin cp line by simp
qed

section \<open>The metrics that the stats table reads\<close>

text \<open>
  \<^verbatim>\<open>renderStatsTable\<close> runs right after \<^verbatim>\<open>computeAllRepMetrics\<close>. A peak or a width
  that the latter stores is a finite number.
\<close>

lemma finite_is_Num: "isFinite p \<Longrightarrow> \<exists>q. p = Num q"
  by (cases p) simp_all

lemma computed_peak_finite:
  assumes "peakM (computeRepMetrics g r) = Some p"
  shows "isFinite p"
proof -
  have two: "\<not> length (points r) < 2"
    using assms by (auto simp: computeRepMetrics_def)
  then have fin: "isFinite (peak_loop g (points r) NInf)"
    using assms by (auto simp: computeRepMetrics_def Let_def split: if_splits)
  then obtain a where "peak_loop g (points r) NInf = Num a"
    using finite_is_Num by blast
  then show ?thesis
    using assms two by (auto simp: computeRepMetrics_def Let_def NET_HEIGHT_M_def)
qed

lemma jdiv_truthy_finite: "truthy ppm \<Longrightarrow> isFinite (jdiv (Num d) ppm)"
  by (cases ppm) simp_all

lemma computed_width_finite:
  assumes "widthM (computeRepMetrics g r) = Some w"
  shows "isFinite w"
proof -
  have two: "\<not> length (points r) < 2"
    using assms by (auto simp: computeRepMetrics_def)
  then have "metersHorizDistance g (points r ! 0) (points r ! (length (points r) - 1)) = Some w"
    using assms by (simp add: computeRepMetrics_def Let_def)
  then show ?thesis
    by (auto simp: metersHorizDistance_def jsub_def jdiv_truthy_finite
        split: option.splits if_splits)
qed

lemma computed_trails_finite:
  "\<forall>r \<in> set (trails (computeAllRepMetrics s)). \<forall>p. peakM r = Some p \<longrightarrow> isFinite p"
  by (auto simp: computeAllRepMetrics_def computed_peak_finite)

lemma all_finite_map_Num: "\<forall>x \<in> set xs. isFinite x \<Longrightarrow> \<exists>ps. xs = map Num ps"
proof (induction xs)
  case Nil
  then show ?case by simp
next
  case (Cons x xs)
  then obtain ps q where "xs = map Num ps" "x = Num q"
    using finite_is_Num by fastforce
  then have "x # xs = map Num (q # ps)"
    by simp
  then show ?case
    by (rule exI [where x = "q # ps"])
qed

lemma computed_means_apply:
  "\<exists>ps ws. defined_peaks (trails (computeAllRepMetrics s)) = map Num ps
         \<and> defined_widths (trails (computeAllRepMetrics s)) = map Num ws"
proof -
  have "\<forall>x \<in> set (defined_peaks (trails (computeAllRepMetrics s))). isFinite x"
    by (auto simp: defined_peaks_def computeAllRepMetrics_def List.map_filter_def
        computed_peak_finite)
  moreover have "\<forall>x \<in> set (defined_widths (trails (computeAllRepMetrics s))). isFinite x"
    by (auto simp: defined_widths_def computeAllRepMetrics_def List.map_filter_def
        computed_width_finite)
  ultimately show ?thesis
    using all_finite_map_Num by blast
qed

text \<open>The metrics depend on the session through the scale and the line only.\<close>

lemma metersAbove_cong:
  assumes "pixelsPerMeter g = pixelsPerMeter g'" and "topLine g = topLine g'"
  shows "metersAboveNetAtPoint g x y = metersAboveNetAtPoint g' x y"
  using assms by (simp add: metersAboveNetAtPoint_def split: option.splits)

lemma peak_loop_cong:
  assumes "pixelsPerMeter g = pixelsPerMeter g'" and "topLine g = topLine g'"
  shows "peak_loop g ps a = peak_loop g' ps a"
  by (induction ps arbitrary: a) (simp_all add: metersAbove_cong [OF assms])

lemma computeRepMetrics_cong:
  assumes "pixelsPerMeter g = pixelsPerMeter g'" and "topLine g = topLine g'"
  shows "computeRepMetrics g r = computeRepMetrics g' r"
  using assms(1) by (simp add: computeRepMetrics_def peak_loop_cong [OF assms] metersHorizDistance_def)

lemma horiz_scenario:
  "metersHorizDistance scenario_session p1 p2 = Some (Num (\<bar>xc p2 - xc p1\<bar> / (300 / 2.43)))"
  by (simp add: metersHorizDistance_def scenario_session_eq jsub_def)

lemma scenario_rep_metrics:
  "computeRepMetrics scenario_session scenario_rep =
     scenario_rep\<lparr>peakM := Some (Num 2.916), aboveNetCM := Some (Num 49),
        widthM := Some (Num 0.972), direction := Some ArrowRight\<rparr>"
  by (simp add: computeRepMetrics_def Let_def scenario_rep_def new_rep_def metersAbove_scenario
      horiz_scenario NET_HEIGHT_M_def)

lemma short_rep_metrics: "computeRepMetrics scenario_session short_rep = short_rep"
  by (simp add: computeRepMetrics_def short_rep_def new_rep_def)

lemma tie_rep_metrics:
  "computeRepMetrics scenario_session tie_rep =
     tie_rep\<lparr>peakM := Some (Num 2.916), aboveNetCM := Some (Num 49),
        widthM := Some (Num 0.81), direction := Some ArrowRight\<rparr>"
  by (simp add: computeRepMetrics_def Let_def tie_rep_def new_rep_def metersAbove_scenario
      horiz_scenario NET_HEIGHT_M_def)

lemma ended_trails:
  "trails ended_session =
     [scenario_rep\<lparr>peakM := Some (Num 2.916), aboveNetCM := Some (Num 49),
        widthM := Some (Num 0.972), direction := Some ArrowRight\<rparr>,
      short_rep,
      tie_rep\<lparr>peakM := Some (Num 2.916), aboveNetCM := Some (Num 49),
        widthM := Some (Num 0.81), direction := Some ArrowRight\<rparr>]"
proof -
  have "computeRepMetrics (scenario_session\<lparr>trails := ts\<rparr>) r
      = computeRepMetrics scenario_session r" for ts r
    by (rule computeRepMetrics_cong) simp_all
  then show ?thesis
    by (simp add: ended_session_def computeAllRepMetrics_def scenario_rep_metrics
        short_rep_metrics tie_rep_metrics)
qed

lemma ended_peaks:
  "peakM (trails ended_session ! 0) = Some (Num 2.916)"
  "peakM (trails ended_session ! 1) = None"
  "peakM (trails ended_session ! 2) = Some (Num 2.916)"
  "length (trails ended_session) = 3"
  by (simp_all add: ended_trails short_rep_def new_rep_def)

section \<open>The averages of the stats table\<close>

lemma stats_step_sums:
  "sumPeak (stats_step i r a) = (case peakM r of None \<Rightarrow> sumPeak a | Some p \<Rightarrow> jadd (sumPeak a) p)"
  "nPeak (stats_step i r a) = (case peakM r of None \<Rightarrow> nPeak a | Some p \<Rightarrow> nPeak a + 1)"
  "sumWidth (stats_step i r a) = (case widthM r of None \<Rightarrow> sumWidth a | Some w \<Rightarrow> jadd (sumWidth a) w)"
  "nWidth (stats_step i r a) = (case widthM r of None \<Rightarrow> nWidth a | Some w \<Rightarrow> nWidth a + 1)"
  by (simp_all add: stats_step_def Let_def split: option.splits)

lemma stats_step_best:
  "bestVal (stats_step i r a) =
     (case peakM r of None \<Rightarrow> bestVal a | Some p \<Rightarrow> if jgt p (bestVal a) then p else bestVal a)"
  "bestIdx (stats_step i r a) =
     (case peakM r of None \<Rightarrow> bestIdx a | Some p \<Rightarrow> if jgt p (bestVal a) then int i else bestIdx a)"
  by (simp_all add: stats_step_def Let_def split: option.splits)

lemma stats_loop_peaks:
  "sumPeak (stats_loop rs i a) = foldl jadd (sumPeak a) (defined_peaks rs)
   \<and> nPeak (stats_loop rs i a) = nPeak a + length (defined_peaks rs)"
  by (induction rs arbitrary: i a)
     (simp_all add: defined_peaks_def stats_step_sums split: option.splits)

lemma stats_loop_widths:
  "sumWidth (stats_loop rs i a) = foldl jadd (sumWidth a) (defined_widths rs)
   \<and> nWidth (stats_loop rs i a) = nWidth a + length (defined_widths rs)"
  by (induction rs arbitrary: i a)
     (simp_all add: defined_widths_def stats_step_sums split: option.splits)

lemma foldl_jadd_Num: "foldl jadd (Num z) (map Num xs) = Num (z + sum_list xs)"
  by (induction xs arbitrary: z) (simp_all add: add.assoc)

text \<open>
  Claim C5. Let the defined peaks of the reps be the finite numbers \<open>ps\<close> and their defined
  widths the finite numbers \<open>ws\<close> (lemma \<open>computed_means_apply\<close>: they are finite after
  \<^verbatim>\<open>computeAllRepMetrics\<close>). Then \<^verbatim>\<open>avgPeak\<close> is \<^verbatim>\<open>null\<close> when \<open>ps\<close> is empty and
  the arithmetic mean of \<open>ps\<close> otherwise: a rep with a \<^verbatim>\<open>null\<close> peak adds nothing to the sum
  and nothing to the count. \<^verbatim>\<open>avgWidth\<close> is the same over \<open>ws\<close>.
\<close>

theorem averages_are_means:
  assumes "defined_peaks rs = map Num ps" and "defined_widths rs = map Num ws"
  shows "avgPeak rs = (if ps = [] then None else Some (Num (arith_mean ps)))
       \<and> avgWidth rs = (if ws = [] then None else Some (Num (arith_mean ws)))"
  using assms
  by (simp add: avgPeak_def avgWidth_def table_stats_def stats_loop_peaks stats_loop_widths
      stats_init_def foldl_jadd_Num arith_mean_def Let_def)

text \<open>The session with three reps: the rep of one point counts in neither average.\<close>

theorem averages_are_means_witness:
  "defined_peaks (trails ended_session) = map Num [2.916, 2.916]
   \<and> defined_widths (trails ended_session) = map Num [0.972, 0.81]
   \<and> avgPeak (trails ended_session) = Some (Num 2.916)
   \<and> avgWidth (trails ended_session) = Some (Num 0.891)"
proof -
  have p: "defined_peaks (trails ended_session) = map Num [2.916, 2.916]"
    by (simp add: defined_peaks_def ended_trails short_rep_def new_rep_def)
  have w: "defined_widths (trails ended_session) = map Num [0.972, 0.81]"
    by (simp add: defined_widths_def ended_trails short_rep_def new_rep_def)
  show ?thesis
    using averages_are_means [OF p w] p w by (simp add: arith_mean_def)
qed

section \<open>The highest peak of the stats table\<close>

lemma stats_loop_snoc:
  "stats_loop (rs @ [r]) i a = stats_step (i + length rs) r (stats_loop rs i a)"
  by (induction rs arbitrary: i a) simp_all

lemma table_stats_snoc: "table_stats (rs @ [r]) = stats_step (length rs) r (table_stats rs)"
  by (simp add: table_stats_def stats_loop_snoc)

text \<open>
  Claim C6. Let every defined peak be a finite number (lemma \<open>computed_trails_finite\<close>: it is
  after \<^verbatim>\<open>computeAllRepMetrics\<close>). If no rep has a defined peak, \<^verbatim>\<open>bestIdx\<close> stays
  \<open>-1\<close>: there is no best rep. Otherwise \<^verbatim>\<open>bestIdx\<close> is the index of a rep whose peak is
  \<^verbatim>\<open>bestVal\<close>, no defined peak is greater, and every defined peak before that index is
  strictly smaller: of the reps that tie for the maximum, the first one is chosen.
\<close>

theorem best_peak_is_first_maximum:
  assumes "\<forall>r \<in> set rs. \<forall>p. peakM r = Some p \<longrightarrow> isFinite p"
  shows "((\<forall>r \<in> set rs. peakM r = None) \<longrightarrow>
            bestIdx (table_stats rs) = - 1 \<and> bestVal (table_stats rs) = NInf)
       \<and> ((\<exists>r \<in> set rs. peakM r \<noteq> None) \<longrightarrow>
            (\<exists>i v. i < length rs \<and> bestIdx (table_stats rs) = int i
               \<and> bestVal (table_stats rs) = Num v \<and> peakM (rs ! i) = Some (Num v)
               \<and> (\<forall>j < length rs. \<forall>q. peakM (rs ! j) = Some (Num q) \<longrightarrow> q \<le> v)
               \<and> (\<forall>j < i. \<forall>q. peakM (rs ! j) = Some (Num q) \<longrightarrow> q < v)))"
  using assms
proof (induction rs rule: rev_induct)
  case Nil
  show ?case
    by (simp add: table_stats_def stats_init_def)
next
  case (snoc r rs)
  let ?a = "table_stats rs"
  have fin: "\<forall>r \<in> set rs. \<forall>p. peakM r = Some p \<longrightarrow> isFinite p"
    using snoc.prems by simp
  note IH = snoc.IH [OF fin]
  show ?case
  proof (cases "peakM r")
    case None
    then have same: "bestIdx (table_stats (rs @ [r])) = bestIdx ?a"
      "bestVal (table_stats (rs @ [r])) = bestVal ?a"
      by (simp_all add: table_stats_snoc stats_step_best)
    have none_iff: "(\<forall>r' \<in> set (rs @ [r]). peakM r' = None) \<longleftrightarrow> (\<forall>r' \<in> set rs. peakM r' = None)"
      using None by auto
    show ?thesis
    proof (cases "\<forall>r' \<in> set rs. peakM r' = None")
      case True
      then show ?thesis
        using IH same none_iff by auto
    next
      case False
      then obtain i v where iv: "i < length rs" "bestIdx ?a = int i" "bestVal ?a = Num v"
        "peakM (rs ! i) = Some (Num v)"
        "\<forall>j < length rs. \<forall>q. peakM (rs ! j) = Some (Num q) \<longrightarrow> q \<le> v"
        "\<forall>j < i. \<forall>q. peakM (rs ! j) = Some (Num q) \<longrightarrow> q < v"
        using IH by auto
      have "i < length (rs @ [r])"
        using iv(1) by simp
      moreover have "peakM ((rs @ [r]) ! i) = Some (Num v)"
        using iv(1,4) by (simp add: nth_append)
      moreover have "\<forall>j < length (rs @ [r]). \<forall>q. peakM ((rs @ [r]) ! j) = Some (Num q) \<longrightarrow> q \<le> v"
        using iv(5) None by (auto simp: nth_append less_Suc_eq)
      moreover have "\<forall>j < i. \<forall>q. peakM ((rs @ [r]) ! j) = Some (Num q) \<longrightarrow> q < v"
        using iv(1,6) by (auto simp: nth_append)
      ultimately show ?thesis
        using same iv(2,3) none_iff False by auto
    qed
  next
    case (Some p)
    then obtain q' where p: "peakM r = Some (Num q')"
      using snoc.prems finite_is_Num by fastforce
    have some: "\<not> (\<forall>r' \<in> set (rs @ [r]). peakM r' = None)"
      using p by auto
    show ?thesis
    proof (cases "\<forall>r' \<in> set rs. peakM r' = None")
      case True
      then have a: "bestIdx ?a = - 1" "bestVal ?a = NInf"
        using IH by auto
      have new: "bestIdx (table_stats (rs @ [r])) = int (length rs)"
        "bestVal (table_stats (rs @ [r])) = Num q'"
        using p a by (simp_all add: table_stats_snoc stats_step_best)
      have "peakM ((rs @ [r]) ! length rs) = Some (Num q')"
        using p by simp
      moreover have "\<forall>j < length (rs @ [r]). \<forall>q. peakM ((rs @ [r]) ! j) = Some (Num q) \<longrightarrow> q \<le> q'"
        using True p by (auto simp: nth_append less_Suc_eq)
      moreover have "\<forall>j < length rs. \<forall>q. peakM ((rs @ [r]) ! j) = Some (Num q) \<longrightarrow> q < q'"
        using True by (auto simp: nth_append)
      ultimately show ?thesis
        using new some by auto
    next
      case False
      then obtain i v where iv: "i < length rs" "bestIdx ?a = int i" "bestVal ?a = Num v"
        "peakM (rs ! i) = Some (Num v)"
        "\<forall>j < length rs. \<forall>q. peakM (rs ! j) = Some (Num q) \<longrightarrow> q \<le> v"
        "\<forall>j < i. \<forall>q. peakM (rs ! j) = Some (Num q) \<longrightarrow> q < v"
        using IH by auto
      show ?thesis
      proof (cases "q' > v")
        case True
        have new: "bestIdx (table_stats (rs @ [r])) = int (length rs)"
          "bestVal (table_stats (rs @ [r])) = Num q'"
          using p iv(3) True by (simp_all add: table_stats_snoc stats_step_best)
        have "peakM ((rs @ [r]) ! length rs) = Some (Num q')"
          using p by simp
        moreover have "\<forall>j < length (rs @ [r]). \<forall>q. peakM ((rs @ [r]) ! j) = Some (Num q) \<longrightarrow> q \<le> q'"
          using iv(5) True p by (fastforce simp: nth_append less_Suc_eq)
        moreover have "\<forall>j < length rs. \<forall>q. peakM ((rs @ [r]) ! j) = Some (Num q) \<longrightarrow> q < q'"
          using iv(5) True by (fastforce simp: nth_append)
        ultimately show ?thesis
          using new some by auto
      next
        case le: False
        have old: "bestIdx (table_stats (rs @ [r])) = int i"
          "bestVal (table_stats (rs @ [r])) = Num v"
          using p iv(2,3) le by (simp_all add: table_stats_snoc stats_step_best)
        have "i < length (rs @ [r])"
          using iv(1) by simp
        moreover have "peakM ((rs @ [r]) ! i) = Some (Num v)"
          using iv(1,4) by (simp add: nth_append)
        moreover have "\<forall>j < length (rs @ [r]). \<forall>q. peakM ((rs @ [r]) ! j) = Some (Num q) \<longrightarrow> q \<le> v"
          using iv(5) le p by (auto simp: nth_append less_Suc_eq)
        moreover have "\<forall>j < i. \<forall>q. peakM ((rs @ [r]) ! j) = Some (Num q) \<longrightarrow> q < v"
          using iv(1,6) by (auto simp: nth_append)
        ultimately show ?thesis
          using old some by auto
      qed
    qed
  qed
qed

text \<open>The session with three reps: the first and the third tie, the first is chosen.\<close>

theorem best_peak_is_first_maximum_witness:
  "peakM (trails ended_session ! 0) = Some (Num 2.916)
   \<and> peakM (trails ended_session ! 1) = None
   \<and> peakM (trails ended_session ! 2) = Some (Num 2.916)
   \<and> bestIdx (table_stats (trails ended_session)) = 0
   \<and> bestVal (table_stats (trails ended_session)) = Num 2.916"
proof -
  let ?rs = "trails ended_session"
  have fin: "\<forall>r \<in> set ?rs. \<forall>p. peakM r = Some p \<longrightarrow> isFinite p"
    unfolding ended_session_def by (rule computed_trails_finite)
  have "\<exists>r \<in> set ?rs. peakM r \<noteq> None"
    by (simp add: ended_trails)
  then obtain i v where iv: "i < length ?rs" "bestIdx (table_stats ?rs) = int i"
    "bestVal (table_stats ?rs) = Num v" "peakM (?rs ! i) = Some (Num v)"
    "\<forall>j < i. \<forall>q. peakM (?rs ! j) = Some (Num q) \<longrightarrow> q < v"
    using best_peak_is_first_maximum [OF fin] by blast
  have "i = 0 \<or> i = 1 \<or> i = 2"
    using iv(1) ended_peaks(4) by auto
  then have v: "v = 2.916"
    using iv(4) ended_peaks by auto
  have "i = 0"
  proof (rule ccontr)
    assume "i \<noteq> 0"
    then have "0 < i" by simp
    then have "(2.916::real) < v"
      using iv(5) ended_peaks(1) by blast
    then show False
      using v by simp
  qed
  then show ?thesis
    using iv(2,3) v ended_peaks by simp
qed

end
